theory Spec2Isabelle
  imports Main "HOL-Library.Word" "HOL-Library.Monad_Syntax"
begin

section \<open>Generic interrupt based timer helper functions (src/generic/timer_irq.c)\<close>

text \<open>
  The C file works on \<open>uint32_t\<close> clock ticks, one process-wide
  \<open>timer_repeat_until\<close>, one function-static \<open>last_timer\<close>, and a handful of
  collaborators declared in headers that are not part of the sources
  (\<open>timer_read_time\<close>, \<open>sched_timer_dispatch\<close>, \<open>timer_get_next\<close>, \<open>irq_enable\<close>,
  \<open>irq_disable\<close>, \<open>irq_wait\<close>, \<open>shutdown\<close>, \<open>stats_note_sleep\<close>).
  Ticks are 32-bit words, so \<open>+\<close>, \<open>-\<close> and \<open>*\<close> wrap as the C arithmetic does and
  \<open>sint\<close> is the cast to \<open>int32_t\<close>.

  The model is sequential: it follows one call of a function of the file from entry to
  exit. \<open>irq_enable\<close>, \<open>irq_disable\<close> and \<open>irq_wait\<close> are recorded as calls; what an
  interrupt handler does to the two variables while interrupts are enabled is not part
  of it.
\<close>

type_synonym u32 = "32 word"

subsection \<open>Collaborators and state\<close>

text \<open>
  Every call the file makes into a collaborator is recorded, in order, with the value
  it returned or was given.
\<close>

datatype event =
    Sched_timer_dispatch u32
  | Timer_get_next u32
  | Timer_read_time u32
  | Irq_enable
  | Irq_disable
  | Irq_wait
  | Shutdown string
  | Stats_note_sleep u32

text \<open>
  The build constant and the three collaborators that return a value. What a
  collaborator answers may depend on everything that happened before the call, which
  is the list of events so far. \<open>CONFIG_CLOCK_FREQ\<close> comes from autoconf.h, generated
  at build time; it is a parameter here, an unsigned 32-bit number of Hz.
\<close>

record env =
  CONFIG_CLOCK_FREQ :: u32
  read_time :: "event list \<Rightarrow> u32"
  dispatch :: "event list \<Rightarrow> u32"
  get_next :: "event list \<Rightarrow> u32"

text \<open>The two variables of the file, and the calls made so far.\<close>

record world =
  timer_repeat_until :: u32
  last_timer :: u32
  trace :: "event list"

definition emit :: "event \<Rightarrow> world \<Rightarrow> world" where
  "emit e w = w\<lparr>trace := trace w @ [e]\<rparr>"

definition timer_read_time :: "env \<Rightarrow> world \<Rightarrow> u32 \<times> world" where
  "timer_read_time E w = (let t = read_time E (trace w) in (t, emit (Timer_read_time t) w))"

definition sched_timer_dispatch :: "env \<Rightarrow> world \<Rightarrow> u32 \<times> world" where
  "sched_timer_dispatch E w =
     (let t = dispatch E (trace w) in (t, emit (Sched_timer_dispatch t) w))"

definition timer_get_next :: "env \<Rightarrow> world \<Rightarrow> u32 \<times> world" where
  "timer_get_next E w = (let t = get_next E (trace w) in (t, emit (Timer_get_next t) w))"

definition irq_enable :: "world \<Rightarrow> world" where
  "irq_enable w = emit Irq_enable w"

definition irq_disable :: "world \<Rightarrow> world" where
  "irq_disable w = emit Irq_disable w"

definition irq_wait :: "world \<Rightarrow> world" where
  "irq_wait w = emit Irq_wait w"

definition stats_note_sleep :: "u32 \<Rightarrow> world \<Rightarrow> world" where
  "stats_note_sleep t w = emit (Stats_note_sleep t) w"

text \<open>
  Modelled from the spec: \<open>shutdown\<close> is a macro of command.h, which is not part of
  the sources. The spec's \<open>report_fatal(reason)\<close> is an irrecoverable-error signal
  that does not return, so a call ends the computation with the fault as its result.
\<close>

datatype fault = Fatal string

definition shutdown :: "string \<Rightarrow> world \<Rightarrow> (fault + 'a) \<times> world" where
  "shutdown msg w = (Inl (Fatal msg), emit (Shutdown msg) w)"

subsection \<open>Clock arithmetic\<close>

definition timer_from_us :: "env \<Rightarrow> u32 \<Rightarrow> u32" where
  "timer_from_us E us = us * (CONFIG_CLOCK_FREQ E div 1000000)"

definition timer_is_before :: "u32 \<Rightarrow> u32 \<Rightarrow> bool" where
  "timer_is_before time1 time2 \<longleftrightarrow> sint (time1 - time2) < 0"

definition TIMER_IDLE_REPEAT_TICKS :: "env \<Rightarrow> u32" where
  "TIMER_IDLE_REPEAT_TICKS E = timer_from_us E 500"

definition TIMER_REPEAT_TICKS :: "env \<Rightarrow> u32" where
  "TIMER_REPEAT_TICKS E = timer_from_us E 100"

definition TIMER_MIN_TRY_TICKS :: "env \<Rightarrow> u32" where
  "TIMER_MIN_TRY_TICKS E = timer_from_us E 1"

definition TIMER_DEFER_REPEAT_TICKS :: "env \<Rightarrow> u32" where
  "TIMER_DEFER_REPEAT_TICKS E = timer_from_us E 5"

subsection \<open>The starvation guard and the dispatch loop\<close>

definition force_defer :: "env \<Rightarrow> u32 \<Rightarrow> world \<Rightarrow> (fault + u32) \<times> world" where
  "force_defer E next w =
     (let (now, w1) = timer_read_time E w in
      if timer_is_before (next + timer_from_us E 1000) now
      then shutdown ''Rescheduled timer in the past'' w1
      else (Inr (now + TIMER_DEFER_REPEAT_TICKS E),
            w1\<lparr>timer_repeat_until := now + TIMER_REPEAT_TICKS E\<rparr>))"

text \<open>
  The inner \<open>while (diff > 0) diff = next - timer_read_time();\<close> ends only when the
  clock lets it, and the \<open>for (;;)\<close> around it only through one of its two returns:
  both are partial, \<open>None\<close> standing for a run that never comes back.
\<close>

partial_function (option) spin_wait :: "env \<Rightarrow> u32 \<Rightarrow> u32 \<Rightarrow> world \<Rightarrow> world option" where
  "spin_wait E next diff w =
     (if 0 < sint diff
      then spin_wait E next (next - fst (timer_read_time E w)) (snd (timer_read_time E w))
      else Some w)"

declare spin_wait.simps [code]

partial_function (option) dispatch_loop ::
  "env \<Rightarrow> u32 \<Rightarrow> world \<Rightarrow> ((fault + u32) \<times> world) option" where
  "dispatch_loop E tru w =
     (let next = fst (sched_timer_dispatch E w);
          w1 = snd (sched_timer_dispatch E w);
          now = fst (timer_read_time E w1);
          w2 = snd (timer_read_time E w1);
          diff = next - now
      in if sint (TIMER_MIN_TRY_TICKS E) < sint diff
         then Some (Inr next, w2)
         else if timer_is_before tru now
         then Some (force_defer E next w2)
         else do {
           w3 \<leftarrow> spin_wait E next diff (irq_enable w2);
           dispatch_loop E tru (irq_disable w3)
         })"

declare dispatch_loop.simps [code]

definition timer_dispatch_many :: "env \<Rightarrow> world \<Rightarrow> ((fault + u32) \<times> world) option" where
  "timer_dispatch_many E w = dispatch_loop E (timer_repeat_until w) w"

subsection \<open>The idle task and the shutdown hook\<close>

definition timer_task :: "env \<Rightarrow> world \<Rightarrow> world" where
  "timer_task E w =
     (let lst = last_timer w;
          w1 = irq_disable w;
          (next, w2) = timer_get_next E w1;
          (cur, w3) = timer_read_time E w2
      in if lst \<noteq> next
         then (let w4 = w3\<lparr>timer_repeat_until := cur + TIMER_IDLE_REPEAT_TICKS E\<rparr>;
                   w5 = irq_enable w4
               in w5\<lparr>last_timer := next\<rparr>)
         else (let w4 = irq_wait w3;
                   (post_sleep, w5) = timer_read_time E w4;
                   w6 = w5\<lparr>timer_repeat_until := post_sleep + TIMER_IDLE_REPEAT_TICKS E\<rparr>;
                   w7 = irq_enable w6
               in stats_note_sleep (post_sleep - cur) w7))"

definition timer_periodic :: "world \<Rightarrow> world" where
  "timer_periodic w = w"

definition timer_irq_shutdown :: "env \<Rightarrow> world \<Rightarrow> world" where
  "timer_irq_shutdown E w =
     (let (now, w1) = timer_read_time E w
      in w1\<lparr>timer_repeat_until := now + TIMER_IDLE_REPEAT_TICKS E\<rparr>)"

subsection \<open>Observing a run\<close>

text \<open>How often a run has called \<open>shutdown\<close>, the queue's dispatch and \<open>irq_wait\<close>.\<close>

fun is_shutdown :: "event \<Rightarrow> bool" where
  "is_shutdown (Shutdown _) = True"
| "is_shutdown _ = False"

fun is_dispatch :: "event \<Rightarrow> bool" where
  "is_dispatch (Sched_timer_dispatch _) = True"
| "is_dispatch _ = False"

definition shutdown_calls :: "world \<Rightarrow> nat" where
  "shutdown_calls w = length (filter is_shutdown (trace w))"

definition dispatch_calls :: "world \<Rightarrow> nat" where
  "dispatch_calls w = length (filter is_dispatch (trace w))"

definition irq_wait_calls :: "world \<Rightarrow> nat" where
  "irq_wait_calls w = count_list (trace w) Irq_wait"

text \<open>
  \<open>loop_head E tru w0 w\<close>: the \<open>for (;;)\<close> of \<open>timer_dispatch_many\<close>, entered in
  \<open>w0\<close>, is at the top of its body in \<open>w\<close>. It is there on entry, and again after
  each pass that took neither return and whose spin-wait came back.
\<close>

inductive loop_head :: "env \<Rightarrow> u32 \<Rightarrow> world \<Rightarrow> world \<Rightarrow> bool" for E tru w0 where
  entry: "loop_head E tru w0 w0"
| again: "loop_head E tru w0 w \<Longrightarrow>
          sched_timer_dispatch E w = (next, w1) \<Longrightarrow>
          timer_read_time E w1 = (now, w2) \<Longrightarrow>
          \<not> sint (TIMER_MIN_TRY_TICKS E) < sint (next - now) \<Longrightarrow>
          \<not> timer_is_before tru now \<Longrightarrow>
          spin_wait E next (next - now) (irq_enable w2) = Some w3 \<Longrightarrow>
          loop_head E tru w0 (irq_disable w3)"

code_pred loop_head .

section \<open>Clock arithmetic: properties\<close>

text \<open>
  C7. \<open>timer_from_us\<close> is linear under 32-bit modular arithmetic: scaling the
  microsecond count by any 32-bit factor \<open>k\<close> (in particular by 2) scales the tick
  count by the same factor.
\<close>

theorem timer_from_us_linear:
  "timer_from_us E (k * us) = k * timer_from_us E us \<and>
   timer_from_us E (2 * us) = 2 * timer_from_us E us"
  by (simp add: timer_from_us_def mult.assoc)

text \<open>
  Two moments \<open>ta\<close> and \<open>tb\<close> on an unbounded time line, less than \<open>2^31\<close> ticks
  apart: the signed difference of their 32-bit readings is their true difference.
\<close>

lemma sint_true_diff:
  fixes ta tb :: int
  assumes "\<bar>ta - tb\<bar> < 2 ^ 31"
  shows "sint (word_of_int ta - word_of_int tb :: u32) = ta - tb"
proof -
  have eq: "word_of_int ta - word_of_int tb = (word_of_int (ta - tb) :: u32)"
    by simp
  have "signed_take_bit 31 (ta - tb) = ta - tb"
    using assms by (intro signed_take_bit_int_eq_self) auto
  then show ?thesis
    unfolding eq sint_sbintrunc' by simp
qed

lemma timer_is_before_true_time:
  fixes ta tb :: int
  assumes "\<bar>ta - tb\<bar> < 2 ^ 31"
  shows "timer_is_before (word_of_int ta) (word_of_int tb) \<longleftrightarrow> ta < tb"
  using sint_true_diff [OF assms] by (simp add: timer_is_before_def)

text \<open>
  C5. For clock ticks \<open>a\<close> and \<open>b\<close> that are the 32-bit readings of two moments less
  than \<open>2^31\<close> ticks apart, \<open>timer_is_before a b\<close> is the negation of
  \<open>timer_is_before b a\<close> whenever \<open>a \<noteq> b\<close>; and no tick is before itself.
\<close>

theorem timer_is_before_antisym:
  fixes ta tb :: int and a b c :: u32
  assumes "a = word_of_int ta" and "b = word_of_int tb" and "\<bar>ta - tb\<bar> < 2 ^ 31"
  shows "(a \<noteq> b \<longrightarrow> timer_is_before a b = (\<not> timer_is_before b a)) \<and>
         \<not> timer_is_before c c"
proof -
  have ba: "\<bar>tb - ta\<bar> < 2 ^ 31" using assms(3) by simp
  have "a \<noteq> b \<Longrightarrow> ta \<noteq> tb" using assms(1,2) by auto
  then have "a \<noteq> b \<longrightarrow> timer_is_before a b = (\<not> timer_is_before b a)"
    unfolding assms(1,2)
    using timer_is_before_true_time [OF assms(3)] timer_is_before_true_time [OF ba]
    by auto
  moreover have "\<not> timer_is_before c c" by (simp add: timer_is_before_def)
  ultimately show ?thesis by simp
qed

theorem timer_is_before_antisym_witness:
  "(0xFFFFFFF0 :: u32) = word_of_int (-16) \<and> (0x10 :: u32) = word_of_int 16 \<and>
   \<bar>(-16::int) - 16\<bar> < 2 ^ 31 \<and> (0xFFFFFFF0 :: u32) \<noteq> 0x10 \<and>
   timer_is_before 0xFFFFFFF0 0x10 = (\<not> timer_is_before 0x10 0xFFFFFFF0) \<and>
   \<not> timer_is_before 7 7"
proof -
  have h1: "(0xFFFFFFF0 :: u32) = word_of_int (-16)" by simp
  have h2: "(0x10 :: u32) = word_of_int 16" by simp
  have h3: "\<bar>(-16::int) - 16\<bar> < 2 ^ 31" by simp
  have h4: "(0xFFFFFFF0 :: u32) \<noteq> 0x10" by simp
  from timer_is_before_antisym [OF h1 h2 h3, of 7] h4
  have "timer_is_before 0xFFFFFFF0 0x10 = (\<not> timer_is_before 0x10 0xFFFFFFF0) \<and>
        \<not> timer_is_before 7 7"
    by blast
  with h1 h2 h3 h4 show ?thesis by blast
qed

text \<open>
  On the 32-bit values alone the two comparisons disagree for every pair of distinct
  ticks but those exactly \<open>2^31\<close> apart, where each is before the other.
\<close>

lemma sint_minus_u32:
  fixes x :: u32
  assumes "x \<noteq> 0x80000000"
  shows "sint (- x) = - sint x"
proof -
  have "sint x \<noteq> - (2 ^ 31)"
  proof
    assume "sint x = - (2 ^ 31)"
    then have "word_of_int (sint x) = (word_of_int (- (2 ^ 31)) :: u32)" by simp
    then have "x = 0x80000000" by simp
    with assms show False by simp
  qed
  moreover have "- (2 ^ 31) \<le> sint x" "sint x < 2 ^ 31"
    using sint_range_size [of x] by (simp_all add: word_size)
  ultimately have "- (2 ^ 31) \<le> - sint x" "- sint x < 2 ^ 31" by linarith+
  then have "signed_take_bit 31 (- sint x) = - sint x"
    by (rule signed_take_bit_int_eq_self)
  then show ?thesis by (simp add: sint_word_minus)
qed

lemma timer_is_before_antisym_word:
  fixes a b :: u32
  assumes "a \<noteq> b" and "a - b \<noteq> 0x80000000"
  shows "timer_is_before a b = (\<not> timer_is_before b a)"
proof -
  have "b - a = - (a - b)" by simp
  then have "sint (b - a) = - sint (a - b)"
    using sint_minus_u32 [OF assms(2)] by simp
  moreover have "sint (a - b) \<noteq> 0"
    using assms(1) by (metis right_minus_eq signed_eq_0_iff)
  ultimately show ?thesis
    by (auto simp: timer_is_before_def)
qed

lemma timer_is_before_half_range:
  "timer_is_before 0 0x80000000 \<and> timer_is_before 0x80000000 0"
  by (simp add: timer_is_before_def)

subsection \<open>The size of the tick constants\<close>

text \<open>
  A 32-bit frequency gives at most 4294 ticks per microsecond, so none of the
  constants of the file (1, 5, 100, 500 and 1000 microseconds) wraps or turns negative
  as an \<open>int32_t\<close>.
\<close>

lemma ticks_per_us_le: "uint (CONFIG_CLOCK_FREQ E div 1000000) \<le> 4294"
proof -
  have "uint (CONFIG_CLOCK_FREQ E) < 2 ^ 32"
    using uint_bounded [of "CONFIG_CLOCK_FREQ E"] by simp
  then have "uint (CONFIG_CLOCK_FREQ E) div 1000000 \<le> 4294" by simp
  then show ?thesis by (simp add: uint_div)
qed

lemma ticks_per_us_ge:
  assumes "1000000 \<le> CONFIG_CLOCK_FREQ E"
  shows "1 \<le> uint (CONFIG_CLOCK_FREQ E div 1000000)"
proof -
  have "1000000 \<le> uint (CONFIG_CLOCK_FREQ E)"
    using assms by (simp add: word_le_def)
  then have "1 \<le> uint (CONFIG_CLOCK_FREQ E) div 1000000" by simp
  then show ?thesis by (simp add: uint_div)
qed

lemma ticks_product_le:
  assumes "uint us \<le> 1000"
  shows "uint us * uint (CONFIG_CLOCK_FREQ E div 1000000) \<le> 4294000"
proof -
  have "uint us * uint (CONFIG_CLOCK_FREQ E div 1000000) \<le> 1000 * 4294"
    using assms ticks_per_us_le [of E] by (intro mult_mono) simp_all
  then show ?thesis by simp
qed

lemma sint_small:
  fixes x :: u32
  assumes "uint x < 2 ^ 31"
  shows "sint x = uint x"
proof -
  have "- (2 ^ 31) \<le> (0::int)" by simp
  also have "0 \<le> uint x" by simp
  finally have "- (2 ^ 31) \<le> uint x" .
  then have "signed_take_bit 31 (uint x) = uint x"
    using assms by (rule signed_take_bit_int_eq_self)
  then show ?thesis by (simp add: sint_uint)
qed

lemma uint_timer_from_us:
  assumes "uint us \<le> 1000"
  shows "uint (timer_from_us E us) = uint us * uint (CONFIG_CLOCK_FREQ E div 1000000)"
proof -
  let ?m = "uint (CONFIG_CLOCK_FREQ E div 1000000)"
  have "0 \<le> uint us" "0 \<le> ?m" by simp_all
  moreover have "uint us * ?m \<le> 4294000"
    using assms by (rule ticks_product_le)
  ultimately have "uint us * ?m mod 2 ^ 32 = uint us * ?m"
    by (intro mod_pos_pos_trivial) simp_all
  then show ?thesis
    by (simp add: timer_from_us_def uint_word_ariths)
qed

lemma sint_timer_from_us:
  assumes "uint us \<le> 1000"
  shows "sint (timer_from_us E us) = uint us * uint (CONFIG_CLOCK_FREQ E div 1000000)"
proof -
  let ?m = "uint (CONFIG_CLOCK_FREQ E div 1000000)"
  have "uint us * ?m \<le> 4294000"
    using assms by (rule ticks_product_le)
  then have "uint (timer_from_us E us) < 2 ^ 31"
    using uint_timer_from_us [OF assms, of E] by simp
  then have "sint (timer_from_us E us) = uint (timer_from_us E us)"
    by (rule sint_small)
  then show ?thesis
    using uint_timer_from_us [OF assms, of E] by simp
qed

lemma sint_ticks_diff:
  assumes "uint a \<le> 1000" and "uint b \<le> 1000"
  shows "sint (timer_from_us E a - timer_from_us E b) =
         (uint a - uint b) * uint (CONFIG_CLOCK_FREQ E div 1000000)"
proof -
  let ?m = "uint (CONFIG_CLOCK_FREQ E div 1000000)"
  have a: "uint (timer_from_us E a) = uint a * ?m" and b: "uint (timer_from_us E b) = uint b * ?m"
    using assms by (simp_all add: uint_timer_from_us)
  have "0 \<le> uint a * ?m" "0 \<le> uint b * ?m" by simp_all
  moreover have "uint a * ?m \<le> 4294000" "uint b * ?m \<le> 4294000"
    using assms by (simp_all add: ticks_product_le)
  ultimately have "\<bar>uint a * ?m - uint b * ?m\<bar> < 2147483648" by linarith
  then have "\<bar>uint a * ?m - uint b * ?m\<bar> < 2 ^ 31" by simp
  then have "sint (word_of_int (uint a * ?m) - word_of_int (uint b * ?m) :: u32)
               = uint a * ?m - uint b * ?m"
    by (rule sint_true_diff)
  moreover have "word_of_int (uint a * ?m) = timer_from_us E a"
    "word_of_int (uint b * ?m) = timer_from_us E b"
    using a b by (metis word_of_int_uint)+
  ultimately show ?thesis by (simp add: algebra_simps)
qed

lemma MIN_TRY_nonneg: "0 \<le> sint (TIMER_MIN_TRY_TICKS E)"
  by (simp add: TIMER_MIN_TRY_TICKS_def sint_timer_from_us)

lemma MIN_TRY_pos: "1000000 \<le> CONFIG_CLOCK_FREQ E \<Longrightarrow> 0 < sint (TIMER_MIN_TRY_TICKS E)"
  using ticks_per_us_ge [of E] by (simp add: TIMER_MIN_TRY_TICKS_def sint_timer_from_us)

lemma timer_is_before_add_cancel:
  "timer_is_before (now + x) (now + y) \<longleftrightarrow> sint (x - y) < 0"
  by (simp add: timer_is_before_def)

lemma defer_before_repeat:
  assumes "1000000 \<le> CONFIG_CLOCK_FREQ E"
  shows "timer_is_before (now + TIMER_DEFER_REPEAT_TICKS E) (now + TIMER_REPEAT_TICKS E)"
  using ticks_per_us_ge [OF assms]
  by (simp add: timer_is_before_add_cancel TIMER_DEFER_REPEAT_TICKS_def TIMER_REPEAT_TICKS_def
      sint_ticks_diff mult_less_0_iff)

lemma repeat_not_before_defer:
  "\<not> timer_is_before (now + TIMER_REPEAT_TICKS E) (now + TIMER_DEFER_REPEAT_TICKS E)"
  by (simp add: timer_is_before_add_cancel TIMER_DEFER_REPEAT_TICKS_def TIMER_REPEAT_TICKS_def
      sint_ticks_diff)

lemma now_before_defer:
  assumes "1000000 \<le> CONFIG_CLOCK_FREQ E"
  shows "timer_is_before now (now + TIMER_DEFER_REPEAT_TICKS E)"
  using ticks_per_us_ge [OF assms] timer_is_before_add_cancel [of now 0 "timer_from_us E 5"]
    sint_ticks_diff [of 0 5 E]
  by (simp add: TIMER_DEFER_REPEAT_TICKS_def timer_from_us_def)

lemma defer_not_before_now: "\<not> timer_is_before (now + TIMER_DEFER_REPEAT_TICKS E) now"
  using timer_is_before_add_cancel [of now "timer_from_us E 5" 0] sint_timer_from_us [of 5 E]
  by (simp add: TIMER_DEFER_REPEAT_TICKS_def)

lemma defer_before_succ:
  "timer_is_before (now + TIMER_DEFER_REPEAT_TICKS E) (now + TIMER_DEFER_REPEAT_TICKS E + 1)"
  by (simp add: timer_is_before_def)

lemma sint_pos_not_before:
  fixes v now :: u32
  assumes "0 < sint (v - now)"
  shows "\<not> timer_is_before v now"
  using assms by (simp add: timer_is_before_def)

section \<open>The starvation guard\<close>

lemmas collab_defs = emit_def timer_read_time_def sched_timer_dispatch_def timer_get_next_def
  irq_enable_def irq_disable_def irq_wait_def stats_note_sleep_def shutdown_def

lemmas tick_defs = timer_from_us_def TIMER_MIN_TRY_TICKS_def TIMER_DEFER_REPEAT_TICKS_def
  TIMER_REPEAT_TICKS_def TIMER_IDLE_REPEAT_TICKS_def

lemma force_defer_on_return:
  assumes "timer_read_time E w = (now, w1)"
    and "\<not> timer_is_before (next + timer_from_us E 1000) now"
  shows "force_defer E next w =
           (Inr (now + TIMER_DEFER_REPEAT_TICKS E),
            w1\<lparr>timer_repeat_until := now + TIMER_REPEAT_TICKS E\<rparr>)"
  using assms by (simp add: force_defer_def)

lemma force_defer_on_fault:
  assumes "timer_read_time E w = (now, w1)"
    and "timer_is_before (next + timer_from_us E 1000) now"
  shows "force_defer E next w =
           (Inl (Fatal ''Rescheduled timer in the past''),
            emit (Shutdown ''Rescheduled timer in the past'') w1)"
  using assms by (simp add: force_defer_def shutdown_def)

text \<open>
  C8. When the fatal check of \<open>force_defer\<close> fires, \<open>shutdown\<close> is called right after
  the clock was read and nothing else happens: \<open>timer_repeat_until\<close> (and
  \<open>last_timer\<close>) are as they were on entry. Whenever \<open>force_defer\<close> leaves
  \<open>timer_repeat_until\<close> different from what it was, the check did not fire and the
  function returned normally, having written \<open>now + TIMER_REPEAT_TICKS\<close>.
\<close>

theorem force_defer_fault_keeps_repeat_until:
  assumes "timer_read_time E w = (now, w1)"
    and "force_defer E next w = (r, w')"
  shows "(timer_is_before (next + timer_from_us E 1000) now \<longrightarrow>
            r = Inl (Fatal ''Rescheduled timer in the past'') \<and>
            timer_repeat_until w' = timer_repeat_until w \<and>
            last_timer w' = last_timer w \<and>
            trace w' = trace w @ [Timer_read_time now, Shutdown ''Rescheduled timer in the past'']) \<and>
         (timer_repeat_until w' \<noteq> timer_repeat_until w \<longrightarrow>
            \<not> timer_is_before (next + timer_from_us E 1000) now \<and>
            r = Inr (now + TIMER_DEFER_REPEAT_TICKS E) \<and>
            timer_repeat_until w' = now + TIMER_REPEAT_TICKS E)"
proof (cases "timer_is_before (next + timer_from_us E 1000) now")
  case True
  from force_defer_on_fault [OF assms(1) True] assms show ?thesis
    by (auto simp: collab_defs Let_def)
next
  case False
  from force_defer_on_return [OF assms(1) False] assms(2) False show ?thesis
    by auto
qed

theorem force_defer_fault_keeps_repeat_until_witness:
  "let E = \<lparr>CONFIG_CLOCK_FREQ = 16000000, read_time = (\<lambda>_. 20000), dispatch = (\<lambda>_. 0),
              get_next = (\<lambda>_. 0)\<rparr>;
       w = \<lparr>timer_repeat_until = 77, last_timer = 5, trace = []\<rparr>;
       msg = ''Rescheduled timer in the past''
   in timer_is_before (3000 + timer_from_us E 1000) 20000 \<and>
      force_defer E 3000 w =
        (Inl (Fatal msg),
         \<lparr>timer_repeat_until = 77, last_timer = 5,
            trace = [Timer_read_time 20000, Shutdown msg]\<rparr>) \<and>
      \<not> timer_is_before (5000 + timer_from_us E 1000) 20000 \<and>
      force_defer E 5000 w =
        (Inr 20080,
         \<lparr>timer_repeat_until = 21600, last_timer = 5, trace = [Timer_read_time 20000]\<rparr>)"
proof -
  let ?E = "\<lparr>CONFIG_CLOCK_FREQ = 16000000, read_time = (\<lambda>_. 20000), dispatch = (\<lambda>_. 0),
              get_next = (\<lambda>_. 0)\<rparr>"
  let ?w = "\<lparr>timer_repeat_until = 77, last_timer = 5, trace = []\<rparr>"
  let ?w1 = "\<lparr>timer_repeat_until = 77, last_timer = 5, trace = [Timer_read_time 20000]\<rparr>"
  have rd: "timer_read_time ?E ?w = (20000, ?w1)"
    by (simp add: collab_defs)
  have past: "timer_is_before (3000 + timer_from_us ?E 1000) 20000"
    by (simp add: timer_is_before_def tick_defs)
  have near: "\<not> timer_is_before (5000 + timer_from_us ?E 1000) 20000"
    by (simp add: timer_is_before_def tick_defs)
  obtain r w' where fd: "force_defer ?E 3000 ?w = (r, w')"
    by (cases "force_defer ?E 3000 ?w")
  obtain r2 w2 where fd2: "force_defer ?E 5000 ?w = (r2, w2)"
    by (cases "force_defer ?E 5000 ?w")
  have changed: "timer_repeat_until w2 \<noteq> timer_repeat_until ?w"
    using fd2 rd near by (auto simp: force_defer_def tick_defs)
  have tr2: "trace w2 = [Timer_read_time 20000]" "last_timer w2 = 5"
    using fd2 rd near by (auto simp: force_defer_def tick_defs)
  from force_defer_fault_keeps_repeat_until [OF rd fd] past
  have "r = Inl (Fatal ''Rescheduled timer in the past'')"
    "w' = \<lparr>timer_repeat_until = 77, last_timer = 5,
            trace = [Timer_read_time 20000, Shutdown ''Rescheduled timer in the past'']\<rparr>"
    by simp_all
  moreover from force_defer_fault_keeps_repeat_until [OF rd fd2] changed tr2
  have "r2 = Inr 20080"
    "w2 = \<lparr>timer_repeat_until = 21600, last_timer = 5, trace = [Timer_read_time 20000]\<rparr>"
    by (simp_all add: tick_defs)
  ultimately show ?thesis
    using fd fd2 past near by (simp add: Let_def)
qed

text \<open>
  C9. When \<open>force_defer\<close> returns normally and \<open>CONFIG_CLOCK_FREQ\<close> is at least
  1,000,000 Hz, the deadline it returns, \<open>now + TIMER_DEFER_REPEAT_TICKS\<close>, is
  strictly before the \<open>timer_repeat_until = now + TIMER_REPEAT_TICKS\<close> it has just
  written; so at that deadline the repeat window is not yet expired.
\<close>

theorem force_defer_deadline_inside_window:
  assumes "force_defer E next w = (Inr v, w')"
    and "1000000 \<le> CONFIG_CLOCK_FREQ E"
  shows "v = fst (timer_read_time E w) + TIMER_DEFER_REPEAT_TICKS E \<and>
         timer_repeat_until w' = fst (timer_read_time E w) + TIMER_REPEAT_TICKS E \<and>
         timer_is_before v (timer_repeat_until w') \<and>
         \<not> timer_is_before (timer_repeat_until w') v"
proof -
  obtain now w1 where rd: "timer_read_time E w = (now, w1)"
    by (cases "timer_read_time E w")
  have "\<not> timer_is_before (next + timer_from_us E 1000) now"
    using force_defer_on_fault [OF rd] assms(1) by auto
  from force_defer_on_return [OF rd this] assms(1)
  have "v = now + TIMER_DEFER_REPEAT_TICKS E"
    and "timer_repeat_until w' = now + TIMER_REPEAT_TICKS E"
    by auto
  then show ?thesis
    using rd defer_before_repeat [OF assms(2), of now] repeat_not_before_defer [of now E]
    by simp
qed

theorem force_defer_deadline_inside_window_witness:
  "let E = \<lparr>CONFIG_CLOCK_FREQ = 16000000, read_time = (\<lambda>_. 20000), dispatch = (\<lambda>_. 0),
              get_next = (\<lambda>_. 0)\<rparr>;
       w = \<lparr>timer_repeat_until = 77, last_timer = 5, trace = []\<rparr>;
       w' = \<lparr>timer_repeat_until = 21600, last_timer = 5, trace = [Timer_read_time 20000]\<rparr>
   in force_defer E 5000 w = (Inr 20080, w') \<and> 1000000 \<le> CONFIG_CLOCK_FREQ E \<and>
      timer_is_before 20080 (timer_repeat_until w') \<and>
      \<not> timer_is_before (timer_repeat_until w') 20080"
proof -
  let ?E = "\<lparr>CONFIG_CLOCK_FREQ = 16000000, read_time = (\<lambda>_. 20000), dispatch = (\<lambda>_. 0),
              get_next = (\<lambda>_. 0)\<rparr>"
  let ?w = "\<lparr>timer_repeat_until = 77, last_timer = 5, trace = []\<rparr>"
  let ?w' = "\<lparr>timer_repeat_until = 21600, last_timer = 5, trace = [Timer_read_time 20000]\<rparr>"
  have fd: "force_defer ?E 5000 ?w = (Inr 20080, ?w')"
    by (simp add: force_defer_def collab_defs tick_defs timer_is_before_def)
  have fr: "1000000 \<le> CONFIG_CLOCK_FREQ ?E"
    by simp
  from force_defer_deadline_inside_window [OF fd fr] fd fr show ?thesis
    by (simp add: Let_def)
qed

section \<open>The dispatch loop\<close>

text \<open>
  C3. When the first answer \<open>next\<close> of the queue's dispatch operation is such that
  the signed difference \<open>next - now\<close> exceeds \<open>TIMER_MIN_TRY_TICKS\<close> at the clock read
  that follows, \<open>timer_dispatch_many\<close> returns \<open>next\<close>; the dispatch operation has been
  called exactly once, the clock read once, and nothing else.
\<close>

theorem timer_dispatch_many_returns_next:
  assumes "sched_timer_dispatch E w = (next, w1)"
    and "timer_read_time E w1 = (now, w2)"
    and "sint (TIMER_MIN_TRY_TICKS E) < sint (next - now)"
  shows "timer_dispatch_many E w = Some (Inr next, w2) \<and>
         trace w2 = trace w @ [Sched_timer_dispatch next, Timer_read_time now] \<and>
         dispatch_calls w2 = dispatch_calls w + 1 \<and>
         timer_repeat_until w2 = timer_repeat_until w"
proof -
  have "dispatch_loop E (timer_repeat_until w) w = Some (Inr next, w2)"
    using assms by (subst dispatch_loop.simps) (simp add: Let_def)
  moreover have "trace w2 = trace w @ [Sched_timer_dispatch next, Timer_read_time now]"
    and "timer_repeat_until w2 = timer_repeat_until w"
    using assms(1,2) by (auto simp: collab_defs Let_def)
  ultimately show ?thesis
    by (simp add: timer_dispatch_many_def dispatch_calls_def)
qed

theorem timer_dispatch_many_returns_next_witness:
  "let E = \<lparr>CONFIG_CLOCK_FREQ = 16000000, read_time = (\<lambda>_. 1000), dispatch = (\<lambda>_. 11000),
              get_next = (\<lambda>_. 0)\<rparr>;
       w = \<lparr>timer_repeat_until = 0, last_timer = 0, trace = []\<rparr>;
       w2 = \<lparr>timer_repeat_until = 0, last_timer = 0,
              trace = [Sched_timer_dispatch 11000, Timer_read_time 1000]\<rparr>
   in sint (TIMER_MIN_TRY_TICKS E) < sint (11000 - 1000 :: u32) \<and>
      timer_dispatch_many E w = Some (Inr 11000, w2) \<and>
      dispatch_calls w2 = dispatch_calls w + 1"
proof -
  let ?E = "\<lparr>CONFIG_CLOCK_FREQ = 16000000, read_time = (\<lambda>_. 1000), dispatch = (\<lambda>_. 11000),
              get_next = (\<lambda>_. 0)\<rparr>"
  let ?w = "\<lparr>timer_repeat_until = 0, last_timer = 0, trace = []\<rparr>"
  let ?w1 = "\<lparr>timer_repeat_until = 0, last_timer = 0, trace = [Sched_timer_dispatch 11000]\<rparr>"
  let ?w2 = "\<lparr>timer_repeat_until = 0, last_timer = 0,
              trace = [Sched_timer_dispatch 11000, Timer_read_time 1000]\<rparr>"
  have h1: "sched_timer_dispatch ?E ?w = (11000, ?w1)"
    by (simp add: collab_defs)
  have h2: "timer_read_time ?E ?w1 = (1000, ?w2)"
    by (simp add: collab_defs)
  have h3: "sint (TIMER_MIN_TRY_TICKS ?E) < sint (11000 - 1000 :: u32)"
    by (simp add: tick_defs)
  from timer_dispatch_many_returns_next [OF h1 h2 h3] h3 show ?thesis
    by (simp add: Let_def)
qed

subsection \<open>What the spin-wait and earlier passes leave behind\<close>

lemma spin_wait_reads:
  assumes "spin_wait E next diff w = Some w'"
  shows "\<exists>ts. w' = w\<lparr>trace := trace w @ map Timer_read_time ts\<rparr>"
proof (rule spin_wait.raw_induct
    [where P = "\<lambda>E next diff w w'. \<exists>ts. w' = w\<lparr>trace := trace w @ map Timer_read_time ts\<rparr>",
      OF _ assms], goal_cases)
  case (1 spin E "next" diff w w')
  show ?case
  proof (cases "0 < sint diff")
    case True
    let ?t = "read_time E (trace w)"
    let ?w1 = "snd (timer_read_time E w)"
    from True 1(2)
    have "spin E next (next - fst (timer_read_time E w)) ?w1 = Some w'"
      by simp
    from 1(1) [OF this] obtain ts
      where "w' = ?w1\<lparr>trace := trace ?w1 @ map Timer_read_time ts\<rparr>"
      by blast
    then have "w' = w\<lparr>trace := trace w @ map Timer_read_time (?t # ts)\<rparr>"
      by (simp add: collab_defs Let_def)
    then show ?thesis by blast
  next
    case False
    with 1(2) have "w' = w\<lparr>trace := trace w @ map Timer_read_time []\<rparr>" by simp
    then show ?thesis by blast
  qed
qed

lemma filter_reads:
  "filter is_shutdown (map Timer_read_time ts) = []"
  "filter is_dispatch (map Timer_read_time ts) = []"
  by (induction ts) simp_all

lemma spin_wait_keeps:
  assumes "spin_wait E next diff w = Some w'"
  shows "timer_repeat_until w' = timer_repeat_until w"
    and "last_timer w' = last_timer w"
    and "shutdown_calls w' = shutdown_calls w"
  using spin_wait_reads [OF assms] by (auto simp: shutdown_calls_def filter_reads)

lemma loop_head_same_result:
  assumes "loop_head E tru w0 w"
  shows "dispatch_loop E tru w0 = dispatch_loop E tru w"
  using assms
proof (induction rule: loop_head.induct)
  case entry
  show ?case by simp
next
  case (again w "next" w1 now w2 w3)
  have "dispatch_loop E tru w = dispatch_loop E tru (irq_disable w3)"
    using again.hyps(2-6) by (subst dispatch_loop.simps) (simp add: Let_def)
  with again.IH show ?case by simp
qed

lemma loop_head_keeps:
  assumes "loop_head E tru w0 w"
  shows "shutdown_calls w = shutdown_calls w0 \<and> timer_repeat_until w = timer_repeat_until w0"
  using assms
proof (induction rule: loop_head.induct)
  case entry
  show ?case by simp
next
  case (again w "next" w1 now w2 w3)
  have "shutdown_calls w2 = shutdown_calls w" "timer_repeat_until w2 = timer_repeat_until w"
    using again.hyps(2,3) by (auto simp: collab_defs Let_def shutdown_calls_def)
  moreover have "shutdown_calls w3 = shutdown_calls (irq_enable w2)"
    "timer_repeat_until w3 = timer_repeat_until (irq_enable w2)"
    using spin_wait_keeps [OF again.hyps(6)] by simp_all
  ultimately show ?case
    using again.IH by (simp add: collab_defs shutdown_calls_def)
qed

text \<open>
  C1. Let the loop of \<open>timer_dispatch_many\<close> be at the top of its body, the queue's
  dispatch operation answer \<open>next\<close>, and the pass reach the starvation exit (the
  return-to-hardware exit is not taken and \<open>timer_repeat_until\<close> is before the clock
  reading). If \<open>next\<close> is more than \<open>timer_from_us 1000\<close> ticks before the time
  \<open>now'\<close> read inside \<open>force_defer\<close>, then \<open>timer_dispatch_many\<close> ends in the fault
  ``Rescheduled timer in the past'' and returns no value; over the whole call
  \<open>shutdown\<close> has been called exactly once, as the last thing that happened.
\<close>

theorem timer_dispatch_many_fatal:
  assumes "loop_head E (timer_repeat_until w0) w0 w"
    and "sched_timer_dispatch E w = (next, w1)"
    and "timer_read_time E w1 = (now, w2)"
    and "\<not> sint (TIMER_MIN_TRY_TICKS E) < sint (next - now)"
    and "timer_is_before (timer_repeat_until w0) now"
    and "timer_read_time E w2 = (now', w3)"
    and "timer_is_before (next + timer_from_us E 1000) now'"
  shows "\<exists>w'. timer_dispatch_many E w0 =
                 Some (Inl (Fatal ''Rescheduled timer in the past''), w') \<and>
           shutdown_calls w' = shutdown_calls w0 + 1 \<and>
           trace w' = trace w @ [Sched_timer_dispatch next, Timer_read_time now,
              Timer_read_time now', Shutdown ''Rescheduled timer in the past'']"
proof -
  let ?msg = "''Rescheduled timer in the past''"
  let ?w' = "emit (Shutdown ?msg) w3"
  have "dispatch_loop E (timer_repeat_until w0) w = Some (force_defer E next w2)"
    using assms(2-5) by (subst dispatch_loop.simps) (simp add: Let_def)
  moreover have "force_defer E next w2 = (Inl (Fatal ?msg), ?w')"
    using assms(6,7) by (rule force_defer_on_fault)
  ultimately have "timer_dispatch_many E w0 = Some (Inl (Fatal ?msg), ?w')"
    using loop_head_same_result [OF assms(1)] by (simp add: timer_dispatch_many_def)
  moreover have tr: "trace ?w' = trace w @ [Sched_timer_dispatch next, Timer_read_time now,
      Timer_read_time now', Shutdown ?msg]"
    using assms(2,3,6) by (auto simp: collab_defs Let_def)
  moreover have "shutdown_calls ?w' = shutdown_calls w0 + 1"
    using loop_head_keeps [OF assms(1)] tr by (simp add: shutdown_calls_def)
  ultimately show ?thesis by blast
qed

theorem timer_dispatch_many_fatal_witness:
  "let E = \<lparr>CONFIG_CLOCK_FREQ = 16000000,
              read_time = (\<lambda>tr. 1000 + 10 * word_of_nat (length tr)),
              dispatch = (\<lambda>tr. if length tr < 5 then 1015 else 0xFFF00000),
              get_next = (\<lambda>_. 0)\<rparr>;
       w0 = \<lparr>timer_repeat_until = 1025, last_timer = 0, trace = []\<rparr>;
       msg = ''Rescheduled timer in the past''
   in \<exists>w'. timer_dispatch_many E w0 = Some (Inl (Fatal msg), w') \<and>
        shutdown_calls w' = 1 \<and>
        trace w' = [Sched_timer_dispatch 1015, Timer_read_time 1010, Irq_enable,
               Timer_read_time 1030, Irq_disable,
               Sched_timer_dispatch 0xFFF00000, Timer_read_time 1060, Timer_read_time 1070,
               Shutdown msg]"
proof -
  let ?E = "\<lparr>CONFIG_CLOCK_FREQ = 16000000,
              read_time = (\<lambda>tr. 1000 + 10 * word_of_nat (length tr)),
              dispatch = (\<lambda>tr. if length tr < 5 then 1015 else 0xFFF00000),
              get_next = (\<lambda>_. 0)\<rparr>"
  let ?u = "\<lparr>timer_repeat_until = 1025, last_timer = 0, trace = []\<rparr>"
  let ?a1 = "\<lparr>timer_repeat_until = 1025, last_timer = 0, trace = [Sched_timer_dispatch 1015]\<rparr>"
  let ?a2 = "\<lparr>timer_repeat_until = 1025, last_timer = 0,
               trace = [Sched_timer_dispatch 1015, Timer_read_time 1010]\<rparr>"
  let ?a3 = "\<lparr>timer_repeat_until = 1025, last_timer = 0,
               trace = [Sched_timer_dispatch 1015, Timer_read_time 1010, Irq_enable,
                 Timer_read_time 1030]\<rparr>"
  let ?tr = "[Sched_timer_dispatch 1015, Timer_read_time 1010, Irq_enable,
                 Timer_read_time 1030, Irq_disable]"
  let ?w = "\<lparr>timer_repeat_until = 1025, last_timer = 0, trace = ?tr\<rparr>"
  let ?w1 = "\<lparr>timer_repeat_until = 1025, last_timer = 0,
               trace = ?tr @ [Sched_timer_dispatch 0xFFF00000]\<rparr>"
  let ?w2 = "\<lparr>timer_repeat_until = 1025, last_timer = 0,
               trace = ?tr @ [Sched_timer_dispatch 0xFFF00000, Timer_read_time 1060]\<rparr>"
  let ?w3 = "\<lparr>timer_repeat_until = 1025, last_timer = 0,
               trace = ?tr @ [Sched_timer_dispatch 0xFFF00000, Timer_read_time 1060,
                 Timer_read_time 1070]\<rparr>"
  have a1: "sched_timer_dispatch ?E ?u = (1015, ?a1)"
    by (simp add: collab_defs)
  have a2: "timer_read_time ?E ?a1 = (1010, ?a2)"
    by (simp add: collab_defs)
  have a3: "\<not> sint (TIMER_MIN_TRY_TICKS ?E) < sint (1015 - 1010 :: u32)"
    by (simp add: tick_defs)
  have a4: "\<not> timer_is_before 1025 1010"
    by (simp add: timer_is_before_def)
  have a5: "spin_wait ?E 1015 (1015 - 1010) (irq_enable ?a2) = Some ?a3"
    by code_simp
  have "loop_head ?E 1025 ?u (irq_disable ?a3)"
    by (rule loop_head.again [OF loop_head.entry a1 a2 a3 a4 a5])
  then have h1: "loop_head ?E (timer_repeat_until ?u) ?u ?w"
    by (simp add: collab_defs)
  have h2: "sched_timer_dispatch ?E ?w = (0xFFF00000, ?w1)"
    by (simp add: collab_defs)
  have h3: "timer_read_time ?E ?w1 = (1060, ?w2)"
    by (simp add: collab_defs)
  have h4: "\<not> sint (TIMER_MIN_TRY_TICKS ?E) < sint (0xFFF00000 - 1060 :: u32)"
    by (simp add: tick_defs)
  have h5: "timer_is_before (timer_repeat_until ?u) 1060"
    by (simp add: timer_is_before_def)
  have h6: "timer_read_time ?E ?w2 = (1070, ?w3)"
    by (simp add: collab_defs)
  have h7: "timer_is_before (0xFFF00000 + timer_from_us ?E 1000) 1070"
    by (simp add: timer_is_before_def tick_defs)
  from timer_dispatch_many_fatal [OF h1 h2 h3 h4 h5 h6 h7]
  obtain w' where res: "timer_dispatch_many ?E ?u =
      Some (Inl (Fatal ''Rescheduled timer in the past''), w')"
    and cnt: "shutdown_calls w' = shutdown_calls ?u + 1"
    and tr: "trace w' = ?tr @ [Sched_timer_dispatch 0xFFF00000, Timer_read_time 1060,
                 Timer_read_time 1070, Shutdown ''Rescheduled timer in the past'']"
    by auto
  show ?thesis
    using res cnt tr by (simp add: Let_def shutdown_calls_def)
qed

text \<open>
  C2 (amended). When the queue's dispatch operation answers a deadline at or before the
  clock reading \<open>now\<close> that follows, \<open>timer_repeat_until\<close> is before \<open>now\<close> on entry,
  and the deadline is within the 1 ms tolerance of the time \<open>now'\<close> read inside
  \<open>force_defer\<close>, then \<open>timer_dispatch_many\<close> takes the forced-defer path: it sets
  \<open>timer_repeat_until\<close> to \<open>now' + TIMER_REPEAT_TICKS\<close> and returns
  \<open>now' + TIMER_DEFER_REPEAT_TICKS\<close>. That value is not before \<open>now'\<close> and is strictly
  before \<open>now' + TIMER_DEFER_REPEAT_TICKS + 1\<close>; it is strictly after \<open>now'\<close> when
  \<open>CONFIG_CLOCK_FREQ\<close> is at least 1,000,000 Hz.
\<close>

theorem timer_dispatch_many_forced_defer:
  assumes "sched_timer_dispatch E w = (next, w1)"
    and "timer_read_time E w1 = (now, w2)"
    and "sint (next - now) \<le> 0"
    and "timer_is_before (timer_repeat_until w) now"
    and "timer_read_time E w2 = (now', w3)"
    and "\<not> timer_is_before (next + timer_from_us E 1000) now'"
  shows "timer_dispatch_many E w =
           Some (Inr (now' + TIMER_DEFER_REPEAT_TICKS E),
                 w3\<lparr>timer_repeat_until := now' + TIMER_REPEAT_TICKS E\<rparr>) \<and>
         \<not> timer_is_before (now' + TIMER_DEFER_REPEAT_TICKS E) now' \<and>
         timer_is_before (now' + TIMER_DEFER_REPEAT_TICKS E)
           (now' + TIMER_DEFER_REPEAT_TICKS E + 1) \<and>
         (1000000 \<le> CONFIG_CLOCK_FREQ E \<longrightarrow>
            timer_is_before now' (now' + TIMER_DEFER_REPEAT_TICKS E))"
proof -
  have "\<not> sint (TIMER_MIN_TRY_TICKS E) < sint (next - now)"
    using assms(3) MIN_TRY_nonneg [of E] by linarith
  then have "dispatch_loop E (timer_repeat_until w) w = Some (force_defer E next w2)"
    using assms(1,2,4) by (subst dispatch_loop.simps) (simp add: Let_def)
  then have "timer_dispatch_many E w =
           Some (Inr (now' + TIMER_DEFER_REPEAT_TICKS E),
                 w3\<lparr>timer_repeat_until := now' + TIMER_REPEAT_TICKS E\<rparr>)"
    using force_defer_on_return [OF assms(5,6)] by (simp add: timer_dispatch_many_def)
  then show ?thesis
    using defer_not_before_now [of now' E] defer_before_succ [of now' E]
      now_before_defer [of E now']
    by simp
qed

theorem timer_dispatch_many_forced_defer_witness:
  "let E = \<lparr>CONFIG_CLOCK_FREQ = 16000000, read_time = (\<lambda>_. 1000), dispatch = (\<lambda>_. 900),
              get_next = (\<lambda>_. 0)\<rparr>;
       w = \<lparr>timer_repeat_until = 500, last_timer = 0, trace = []\<rparr>
   in sint (900 - 1000 :: u32) \<le> 0 \<and> timer_is_before (timer_repeat_until w) 1000 \<and>
      \<not> timer_is_before (900 + timer_from_us E 1000) 1000 \<and>
      timer_dispatch_many E w =
        Some (Inr 1080,
          \<lparr>timer_repeat_until = 2600, last_timer = 0,
             trace = [Sched_timer_dispatch 900, Timer_read_time 1000, Timer_read_time 1000]\<rparr>) \<and>
      timer_is_before 1000 1080 \<and> timer_is_before 1080 1081"
proof -
  let ?E = "\<lparr>CONFIG_CLOCK_FREQ = 16000000, read_time = (\<lambda>_. 1000), dispatch = (\<lambda>_. 900),
              get_next = (\<lambda>_. 0)\<rparr>"
  let ?u = "\<lparr>timer_repeat_until = 500, last_timer = 0, trace = []\<rparr>"
  let ?u1 = "\<lparr>timer_repeat_until = 500, last_timer = 0, trace = [Sched_timer_dispatch 900]\<rparr>"
  let ?u2 = "\<lparr>timer_repeat_until = 500, last_timer = 0,
               trace = [Sched_timer_dispatch 900, Timer_read_time 1000]\<rparr>"
  let ?u3 = "\<lparr>timer_repeat_until = 500, last_timer = 0,
               trace = [Sched_timer_dispatch 900, Timer_read_time 1000, Timer_read_time 1000]\<rparr>"
  have h1: "sched_timer_dispatch ?E ?u = (900, ?u1)"
    by (simp add: collab_defs)
  have h2: "timer_read_time ?E ?u1 = (1000, ?u2)"
    by (simp add: collab_defs)
  have h3: "sint (900 - 1000 :: u32) \<le> 0"
    by simp
  have h4: "timer_is_before (timer_repeat_until ?u) 1000"
    by (simp add: timer_is_before_def)
  have h5: "timer_read_time ?E ?u2 = (1000, ?u3)"
    by (simp add: collab_defs)
  have h6: "\<not> timer_is_before (900 + timer_from_us ?E 1000) 1000"
    by (simp add: timer_is_before_def tick_defs)
  have fr: "1000000 \<le> CONFIG_CLOCK_FREQ ?E"
    by simp
  from timer_dispatch_many_forced_defer [OF h1 h2 h3 h4 h5 h6] fr h3 h4 h6 show ?thesis
    by (simp add: Let_def tick_defs)
qed

text \<open>
  C2 as first stated also asks the returned value to be strictly after \<open>now'\<close>. With a
  clock below 1 MHz, \<open>CONFIG_CLOCK_FREQ / 1000000\<close> is 0, so is
  \<open>TIMER_DEFER_REPEAT_TICKS\<close>, and the forced-defer path returns \<open>now'\<close> itself.
\<close>

theorem timer_dispatch_many_forced_defer_slow_clock:
  "let E = \<lparr>CONFIG_CLOCK_FREQ = 500000, read_time = (\<lambda>_. 1000), dispatch = (\<lambda>_. 1000),
              get_next = (\<lambda>_. 0)\<rparr>;
       w = \<lparr>timer_repeat_until = 500, last_timer = 0, trace = []\<rparr>
   in sint (1000 - 1000 :: u32) \<le> 0 \<and> timer_is_before (timer_repeat_until w) 1000 \<and>
      \<not> timer_is_before (1000 + timer_from_us E 1000) 1000 \<and>
      timer_dispatch_many E w =
        Some (Inr 1000,
          \<lparr>timer_repeat_until = 1000, last_timer = 0,
             trace = [Sched_timer_dispatch 1000, Timer_read_time 1000, Timer_read_time 1000]\<rparr>) \<and>
      \<not> (timer_is_before 1000 1000 \<and>
         timer_is_before 1000 (1000 + TIMER_DEFER_REPEAT_TICKS E + 1))"
  by code_simp

subsection \<open>The two normal exits\<close>

lemma dispatch_loop_normal_exit:
  assumes "dispatch_loop E tru w = Some r"
  shows "\<forall>v w'. r = (Inr v, w') \<longrightarrow>
     (\<exists>tr now. trace w' = tr @ [Sched_timer_dispatch v, Timer_read_time now] \<and>
        sint (TIMER_MIN_TRY_TICKS E) < sint (v - now)) \<or>
     (\<exists>tr now1 now. trace w' = tr @ [Timer_read_time now1, Timer_read_time now] \<and>
        v = now + TIMER_DEFER_REPEAT_TICKS E \<and>
        timer_repeat_until w' = now + TIMER_REPEAT_TICKS E)"
proof (rule dispatch_loop.raw_induct
    [where P = "\<lambda>E tru w r. \<forall>v w'. r = (Inr v, w') \<longrightarrow>
     (\<exists>tr now. trace w' = tr @ [Sched_timer_dispatch v, Timer_read_time now] \<and>
        sint (TIMER_MIN_TRY_TICKS E) < sint (v - now)) \<or>
     (\<exists>tr now1 now. trace w' = tr @ [Timer_read_time now1, Timer_read_time now] \<and>
        v = now + TIMER_DEFER_REPEAT_TICKS E \<and>
        timer_repeat_until w' = now + TIMER_REPEAT_TICKS E)", OF _ assms], goal_cases)
  case (1 loop E tru w r)
  obtain "next" w1 where d: "sched_timer_dispatch E w = (next, w1)"
    by (cases "sched_timer_dispatch E w")
  obtain now w2 where t: "timer_read_time E w1 = (now, w2)"
    by (cases "timer_read_time E w1")
  have tr2: "trace w2 = trace w @ [Sched_timer_dispatch next, Timer_read_time now]"
    using d t by (auto simp: collab_defs Let_def)
  consider (hw) "sint (TIMER_MIN_TRY_TICKS E) < sint (next - now)"
    | (starve) "\<not> sint (TIMER_MIN_TRY_TICKS E) < sint (next - now)" "timer_is_before tru now"
    | (spin) "\<not> sint (TIMER_MIN_TRY_TICKS E) < sint (next - now)" "\<not> timer_is_before tru now"
    by blast
  then show ?case
  proof cases
    case hw
    with 1(2) d t have "r = (Inr next, w2)" by (simp add: Let_def)
    with tr2 hw show ?thesis by auto
  next
    case starve
    with 1(2) d t have r: "r = force_defer E next w2" by (simp add: Let_def)
    obtain now' w3 where t': "timer_read_time E w2 = (now', w3)"
      by (cases "timer_read_time E w2")
    have tr3: "trace w3 =
        trace w @ [Sched_timer_dispatch next, Timer_read_time now, Timer_read_time now']"
      using tr2 t' by (auto simp: collab_defs Let_def)
    show ?thesis
    proof (cases "timer_is_before (next + timer_from_us E 1000) now'")
      case True
      from force_defer_on_fault [OF t' True] r show ?thesis by simp
    next
      case False
      from force_defer_on_return [OF t' False] r tr3 show ?thesis by auto
    qed
  next
    case spin
    with 1(2) d t obtain w3 where "loop E tru (irq_disable w3) = Some r"
      by (auto simp: Let_def bind_eq_Some_conv)
    from 1(1) [OF this] show ?thesis .
  qed
qed

text \<open>
  C4 (amended). Whenever \<open>timer_dispatch_many\<close> returns a value \<open>v\<close>, the last thing
  that happened is a clock reading \<open>now\<close>, and \<open>v\<close> is not before \<open>now\<close>. Either the
  call before that reading was the queue's dispatch operation answering \<open>v\<close> (the
  return-to-hardware exit), and then \<open>v - now > TIMER_MIN_TRY_TICKS \<ge> 0\<close> as signed
  numbers, with \<open>TIMER_MIN_TRY_TICKS > 0\<close> when \<open>CONFIG_CLOCK_FREQ\<close> is at least
  1,000,000 Hz; or the call before it was another clock reading (the forced-defer
  exit), and then \<open>v = now + TIMER_DEFER_REPEAT_TICKS\<close> and \<open>timer_repeat_until\<close> is
  \<open>now + TIMER_REPEAT_TICKS\<close>.
\<close>

theorem timer_dispatch_many_not_before_now:
  assumes "timer_dispatch_many E w = Some (Inr v, w')"
  shows "\<exists>tr now. trace w' = tr @ [Timer_read_time now] \<and> \<not> timer_is_before v now \<and>
           ((\<exists>tr'. tr = tr' @ [Sched_timer_dispatch v]) \<and>
              sint (TIMER_MIN_TRY_TICKS E) < sint (v - now) \<and>
              0 \<le> sint (TIMER_MIN_TRY_TICKS E) \<and>
              (1000000 \<le> CONFIG_CLOCK_FREQ E \<longrightarrow> 0 < sint (TIMER_MIN_TRY_TICKS E))
            \<or>
            (\<exists>tr' now1. tr = tr' @ [Timer_read_time now1]) \<and>
              v = now + TIMER_DEFER_REPEAT_TICKS E \<and>
              timer_repeat_until w' = now + TIMER_REPEAT_TICKS E)"
proof -
  from assms have "dispatch_loop E (timer_repeat_until w) w = Some (Inr v, w')"
    by (simp add: timer_dispatch_many_def)
  from dispatch_loop_normal_exit [OF this]
  consider (hw) tr now where "trace w' = tr @ [Sched_timer_dispatch v, Timer_read_time now]"
      "sint (TIMER_MIN_TRY_TICKS E) < sint (v - now)"
    | (forced) tr now1 now where "trace w' = tr @ [Timer_read_time now1, Timer_read_time now]"
      "v = now + TIMER_DEFER_REPEAT_TICKS E" "timer_repeat_until w' = now + TIMER_REPEAT_TICKS E"
    by blast
  then show ?thesis
  proof cases
    case hw
    have "0 < sint (v - now)"
      using hw(2) MIN_TRY_nonneg [of E] by linarith
    then have "\<not> timer_is_before v now" by (rule sint_pos_not_before)
    moreover have "trace w' = (tr @ [Sched_timer_dispatch v]) @ [Timer_read_time now]"
      using hw(1) by simp
    ultimately show ?thesis
      using hw(2) MIN_TRY_nonneg [of E] MIN_TRY_pos [of E] by blast
  next
    case forced
    have "\<not> timer_is_before v now"
      using forced(2) defer_not_before_now [of now E] by simp
    moreover have "trace w' = (tr @ [Timer_read_time now1]) @ [Timer_read_time now]"
      using forced(1) by simp
    ultimately show ?thesis
      using forced(2,3) by blast
  qed
qed

theorem timer_dispatch_many_not_before_now_witness:
  "let E = \<lparr>CONFIG_CLOCK_FREQ = 16000000, read_time = (\<lambda>_. 1000), dispatch = (\<lambda>_. 11000),
              get_next = (\<lambda>_. 0)\<rparr>;
       w = \<lparr>timer_repeat_until = 0, last_timer = 0, trace = []\<rparr>;
       w' = \<lparr>timer_repeat_until = 0, last_timer = 0,
              trace = [Sched_timer_dispatch 11000, Timer_read_time 1000]\<rparr>
   in timer_dispatch_many E w = Some (Inr 11000, w') \<and> \<not> timer_is_before 11000 1000"
proof -
  let ?E = "\<lparr>CONFIG_CLOCK_FREQ = 16000000, read_time = (\<lambda>_. 1000), dispatch = (\<lambda>_. 11000),
              get_next = (\<lambda>_. 0)\<rparr>"
  let ?u = "\<lparr>timer_repeat_until = 0, last_timer = 0, trace = []\<rparr>"
  let ?u' = "\<lparr>timer_repeat_until = 0, last_timer = 0,
              trace = [Sched_timer_dispatch 11000, Timer_read_time 1000]\<rparr>"
  have res: "timer_dispatch_many ?E ?u = Some (Inr 11000, ?u')"
    by code_simp
  from timer_dispatch_many_not_before_now [OF res]
  obtain tr now where "trace ?u' = tr @ [Timer_read_time now]" "\<not> timer_is_before 11000 now"
    by blast
  then have "\<not> timer_is_before 11000 1000"
    by simp
  with res show ?thesis
    by (simp add: Let_def)
qed

text \<open>
  C4 as first stated has \<open>TIMER_MIN_TRY_TICKS > 0\<close> on every normal return. With a clock
  below 1 MHz the threshold is 0: the return-to-hardware exit is taken with
  \<open>next - now > 0\<close>, and \<open>TIMER_MIN_TRY_TICKS\<close> is not positive.
\<close>

theorem timer_dispatch_many_min_try_zero:
  "let E = \<lparr>CONFIG_CLOCK_FREQ = 500000, read_time = (\<lambda>_. 1000), dispatch = (\<lambda>_. 1010),
              get_next = (\<lambda>_. 0)\<rparr>;
       w = \<lparr>timer_repeat_until = 0, last_timer = 0, trace = []\<rparr>
   in timer_dispatch_many E w =
        Some (Inr 1010,
          \<lparr>timer_repeat_until = 0, last_timer = 0,
             trace = [Sched_timer_dispatch 1010, Timer_read_time 1000]\<rparr>) \<and>
      sint (TIMER_MIN_TRY_TICKS E) < sint (1010 - 1000 :: u32) \<and>
      \<not> 0 < sint (TIMER_MIN_TRY_TICKS E)"
  by code_simp

section \<open>The idle task\<close>

text \<open>
  C6. In a call of \<open>timer_task\<close>, let \<open>next\<close> be what \<open>timer_get_next\<close> answers and
  \<open>cur\<close> the clock reading after it. If \<open>next\<close> equals the cached \<open>last_timer\<close>, the
  task calls \<open>irq_wait\<close> exactly once and sets \<open>timer_repeat_until\<close> to the time read
  after the wait plus \<open>TIMER_IDLE_REPEAT_TICKS\<close>. If it differs, the task does not
  call \<open>irq_wait\<close>, sets \<open>timer_repeat_until\<close> to \<open>cur + TIMER_IDLE_REPEAT_TICKS\<close>,
  stores \<open>next\<close> in \<open>last_timer\<close> and returns.
\<close>

theorem timer_task_branches:
  assumes "timer_get_next E (irq_disable w) = (next, w2)"
    and "timer_read_time E w2 = (cur, w3)"
    and "timer_read_time E (irq_wait w3) = (post_sleep, w5)"
  shows "(next = last_timer w \<longrightarrow>
            irq_wait_calls (timer_task E w) = irq_wait_calls w + 1 \<and>
            timer_repeat_until (timer_task E w) = post_sleep + TIMER_IDLE_REPEAT_TICKS E \<and>
            last_timer (timer_task E w) = last_timer w \<and>
            trace (timer_task E w) =
              trace w @ [Irq_disable, Timer_get_next next, Timer_read_time cur, Irq_wait,
                Timer_read_time post_sleep, Irq_enable, Stats_note_sleep (post_sleep - cur)]) \<and>
         (next \<noteq> last_timer w \<longrightarrow>
            irq_wait_calls (timer_task E w) = irq_wait_calls w \<and>
            timer_repeat_until (timer_task E w) = cur + TIMER_IDLE_REPEAT_TICKS E \<and>
            last_timer (timer_task E w) = next \<and>
            trace (timer_task E w) =
              trace w @ [Irq_disable, Timer_get_next next, Timer_read_time cur, Irq_enable])"
proof (cases "next = last_timer w")
  case True
  have "timer_task E w =
      stats_note_sleep (post_sleep - cur)
        (irq_enable (w5\<lparr>timer_repeat_until := post_sleep + TIMER_IDLE_REPEAT_TICKS E\<rparr>))"
    using assms True by (simp add: timer_task_def Let_def)
  then show ?thesis
    using assms True by (auto simp: collab_defs Let_def irq_wait_calls_def)
next
  case False
  have "timer_task E w =
      (irq_enable (w3\<lparr>timer_repeat_until := cur + TIMER_IDLE_REPEAT_TICKS E\<rparr>))
        \<lparr>last_timer := next\<rparr>"
    using assms False by (auto simp: timer_task_def Let_def)
  then show ?thesis
    using assms False by (auto simp: collab_defs Let_def irq_wait_calls_def)
qed

theorem timer_task_branches_witness:
  "let E = \<lparr>CONFIG_CLOCK_FREQ = 16000000,
              read_time = (\<lambda>tr. 1000 + 10 * word_of_nat (length tr)),
              dispatch = (\<lambda>_. 0), get_next = (\<lambda>_. 7000)\<rparr>;
       same = \<lparr>timer_repeat_until = 0, last_timer = 7000, trace = []\<rparr>;
       other = \<lparr>timer_repeat_until = 0, last_timer = 6000, trace = []\<rparr>
   in timer_task E same =
        \<lparr>timer_repeat_until = 9040, last_timer = 7000,
           trace = [Irq_disable, Timer_get_next 7000, Timer_read_time 1020, Irq_wait,
             Timer_read_time 1040, Irq_enable, Stats_note_sleep 20]\<rparr> \<and>
      irq_wait_calls (timer_task E same) = 1 \<and>
      timer_task E other =
        \<lparr>timer_repeat_until = 9020, last_timer = 7000,
           trace = [Irq_disable, Timer_get_next 7000, Timer_read_time 1020, Irq_enable]\<rparr> \<and>
      irq_wait_calls (timer_task E other) = 0"
proof -
  let ?E = "\<lparr>CONFIG_CLOCK_FREQ = 16000000,
              read_time = (\<lambda>tr. 1000 + 10 * word_of_nat (length tr)),
              dispatch = (\<lambda>_. 0), get_next = (\<lambda>_. 7000)\<rparr>"
  let ?same = "\<lparr>timer_repeat_until = 0, last_timer = 7000, trace = []\<rparr>"
  let ?other = "\<lparr>timer_repeat_until = 0, last_timer = 6000, trace = []\<rparr>"
  let ?s2 = "\<lparr>timer_repeat_until = 0, last_timer = 7000,
               trace = [Irq_disable, Timer_get_next 7000]\<rparr>"
  let ?s3 = "\<lparr>timer_repeat_until = 0, last_timer = 7000,
               trace = [Irq_disable, Timer_get_next 7000, Timer_read_time 1020]\<rparr>"
  let ?s5 = "\<lparr>timer_repeat_until = 0, last_timer = 7000,
               trace = [Irq_disable, Timer_get_next 7000, Timer_read_time 1020, Irq_wait,
                 Timer_read_time 1040]\<rparr>"
  let ?o2 = "\<lparr>timer_repeat_until = 0, last_timer = 6000,
               trace = [Irq_disable, Timer_get_next 7000]\<rparr>"
  let ?o3 = "\<lparr>timer_repeat_until = 0, last_timer = 6000,
               trace = [Irq_disable, Timer_get_next 7000, Timer_read_time 1020]\<rparr>"
  let ?o5 = "\<lparr>timer_repeat_until = 0, last_timer = 6000,
               trace = [Irq_disable, Timer_get_next 7000, Timer_read_time 1020, Irq_wait,
                 Timer_read_time 1040]\<rparr>"
  have s1: "timer_get_next ?E (irq_disable ?same) = (7000, ?s2)"
    by (simp add: collab_defs)
  have s2: "timer_read_time ?E ?s2 = (1020, ?s3)"
    by (simp add: collab_defs)
  have s3: "timer_read_time ?E (irq_wait ?s3) = (1040, ?s5)"
    by (simp add: collab_defs)
  have o1: "timer_get_next ?E (irq_disable ?other) = (7000, ?o2)"
    by (simp add: collab_defs)
  have o2: "timer_read_time ?E ?o2 = (1020, ?o3)"
    by (simp add: collab_defs)
  have o3: "timer_read_time ?E (irq_wait ?o3) = (1040, ?o5)"
    by (simp add: collab_defs)
  have a: "timer_task ?E ?same = \<lparr>timer_repeat_until = timer_repeat_until (timer_task ?E ?same),
      last_timer = last_timer (timer_task ?E ?same), trace = trace (timer_task ?E ?same)\<rparr>"
    "timer_task ?E ?other = \<lparr>timer_repeat_until = timer_repeat_until (timer_task ?E ?other),
      last_timer = last_timer (timer_task ?E ?other), trace = trace (timer_task ?E ?other)\<rparr>"
    by simp_all
  from timer_task_branches [OF s1 s2 s3] timer_task_branches [OF o1 o2 o3] show ?thesis
    unfolding Let_def
    by (subst a(1), subst a(2)) (simp add: tick_defs irq_wait_calls_def)
qed

text \<open>
  C10. After every call of \<open>timer_task\<close>, \<open>last_timer\<close> is the value that
  \<open>timer_get_next\<close> answered during that call.
\<close>

theorem timer_task_caches_next:
  "last_timer (timer_task E w) = fst (timer_get_next E (irq_disable w))"
  by (simp add: timer_task_def Let_def split_def collab_defs)

end
